theory Spec2Isabelle
  imports Complex_Main
begin

section \<open>The performance-metrics node of the cart-pole controller\<close>

text \<open>
  A shallow embedding of \<^verbatim>\<open>performance_metrics.py\<close>: the class
  \<^verbatim>\<open>PerformanceMetrics\<close>, its four subscription callbacks and its periodic
  \<^verbatim>\<open>compute_metrics\<close>.

  Finite float64 values are modelled by real numbers with exact arithmetic (rounding,
  NaN and infinite inputs are not modelled). The single place of the source where a
  non-finite value arises from finite inputs, the numpy division \<^verbatim>\<open>1.0 / np.mean(...)\<close>,
  has a result type of its own (\<open>np_float\<close>).
  Mutation of \<^verbatim>\<open>self\<close> is explicit state passing, log calls are collected in a list,
  and an exception that leaves a callback is a value of the outcome.
\<close>

subsection \<open>Data\<close>

text \<open>The attributes assigned in \<^verbatim>\<open>__init__\<close> (lines 29 to 36).\<close>

record performance_metrics =
  pole_angles :: "real list"
  cart_positions :: "real list"
  control_forces :: "real list"
  recovery_times :: "real list"
  control_timestamps :: "real list"
  last_earthquake_time :: "real option"
  last_stable_time :: "real option"
  simulation_time :: real

text \<open>The fields of \<^verbatim>\<open>sensor_msgs/JointState\<close> that the node reads.\<close>

record joint_state =
  name :: "string list"
  position :: "real list"
  velocity :: "real list"

text \<open>\<^verbatim>\<open>msg.clock\<close> of \<^verbatim>\<open>rosgraph_msgs/Clock\<close>: int32 seconds and uint32 nanoseconds.\<close>

record clock_time =
  sec :: int
  nanosec :: nat

datatype py_error = ValueError | IndexError | TypeError

text \<open>
  The result of a numpy float64 division with a positive numerator: a finite quotient, or
  \<^verbatim>\<open>inf\<close> when the divisor is zero (numpy emits a RuntimeWarning and raises nothing).
\<close>

datatype np_float = Finite real | Infinity

datatype rate_status = Meets_50Hz | Outside_50Hz_range | Not_enough_data_to_compute

text \<open>One constructor per \<^verbatim>\<open>get_logger()\<close> call of the callbacks, with the values it formats.\<close>

datatype log_entry =
    Warn_cart_exceeded_limit real
  | Info_recovery_time real
  | Warn_joint_names_not_found
  | Info_earthquake_detected
  | Warn_not_enough_data
  | Info_performance_metrics
  | Info_max_pole_angle_deviation real
  | Info_rms_cart_position_error real
  | Info_peak_control_force real
  | Info_control_effort_efficiency real
  | Info_average_recovery_time real
  | Info_no_recovery_data
  | Info_control_rate np_float rate_status

text \<open>
  What a callback leaves behind: the node's attributes, the log calls it made, and the
  exception that escaped it, if any.
\<close>

record outcome =
  store :: performance_metrics
  logs :: "log_entry list"
  raised :: "py_error option"

definition returned :: "performance_metrics \<Rightarrow> log_entry list \<Rightarrow> outcome" where
  "returned s l = \<lparr>store = s, logs = l, raised = None\<rparr>"

definition raising :: "performance_metrics \<Rightarrow> log_entry list \<Rightarrow> py_error \<Rightarrow> outcome" where
  "raising s l e = \<lparr>store = s, logs = l, raised = Some e\<rparr>"

text \<open>The values \<^verbatim>\<open>compute_metrics\<close> holds in local variables before it logs them.\<close>

record report =
  max_pole_angle_dev :: real
  rms_cart_position :: real
  peak_force :: real
  avg_recovery_time :: "real option"
  avg_control_rate :: "np_float option"
  control_rate_status :: rate_status
  efficiency_percentage :: real

subsection \<open>Python and numpy primitives\<close>

text \<open>\<^verbatim>\<open>list.index(y)\<close>: the first position of \<open>y\<close>; \<open>None\<close> stands for ValueError.\<close>

fun index_of :: "'a list \<Rightarrow> 'a \<Rightarrow> nat option" where
  "index_of [] y = None"
| "index_of (x # xs) y = (if x = y then Some 0 else map_option Suc (index_of xs y))"

text \<open>The builtin \<^verbatim>\<open>max\<close> of a list: ValueError on the empty list.\<close>

fun py_max :: "real list \<Rightarrow> real option" where
  "py_max [] = None"
| "py_max (x # xs) = Some (fold max xs x)"

text \<open>\<^verbatim>\<open>np.diff\<close>: \<open>out[i] = a[i+1] - a[i]\<close>.\<close>

fun np_diff :: "real list \<Rightarrow> real list" where
  "np_diff (a # b # xs) = (b - a) # np_diff (b # xs)"
| "np_diff xs = []"

text \<open>\<^verbatim>\<open>np.mean\<close>, called in the source on non-empty sequences only.\<close>

definition np_mean :: "real list \<Rightarrow> real" where
  "np_mean xs = sum_list xs / real (length xs)"

text \<open>\<^verbatim>\<open>np.sqrt(np.mean(np.square(xs)))\<close>.\<close>

definition np_rms :: "real list \<Rightarrow> real" where
  "np_rms xs = sqrt (np_mean (map (\<lambda>x. x * x) xs))"

text \<open>\<^verbatim>\<open>1.0 / m\<close> for a numpy float64 \<open>m\<close>.\<close>

definition np_reciprocal :: "real \<Rightarrow> np_float" where
  "np_reciprocal m = (if m = 0 then Infinity else Finite (1 / m))"

text \<open>\<^verbatim>\<open>avg_control_rate/4\<close>.\<close>

fun quarter :: "np_float \<Rightarrow> np_float" where
  "quarter (Finite x) = Finite (x / 4)"
| "quarter Infinity = Infinity"

text \<open>\<^verbatim>\<open>40 <= v <= 70\<close>.\<close>

fun in_band :: "np_float \<Rightarrow> bool" where
  "in_band (Finite x) = (40 \<le> x \<and> x \<le> 70)"
| "in_band Infinity = False"

subsection \<open>The node\<close>

text \<open>\<^verbatim>\<open>__init__\<close>.\<close>

definition init :: performance_metrics where
  "init = \<lparr>pole_angles = [], cart_positions = [], control_forces = [], recovery_times = [],
            control_timestamps = [], last_earthquake_time = None, last_stable_time = None,
            simulation_time = 0\<rparr>"

text \<open>
  The body of the \<^verbatim>\<open>try\<close> block of \<^verbatim>\<open>joint_state_callback\<close> once both indices are
  known (lines 50 to 69). The three subscripts come first; each raises IndexError when
  the index is not below the length of the array.
\<close>

definition record_joint_state :: "performance_metrics \<Rightarrow> joint_state \<Rightarrow> nat \<Rightarrow> nat \<Rightarrow> outcome" where
  "record_joint_state s msg cart_idx pole_idx =
     (if \<not> cart_idx < length (position msg) then raising s [] IndexError
      else if \<not> pole_idx < length (position msg) then raising s [] IndexError
      else if \<not> cart_idx < length (velocity msg) then raising s [] IndexError
      else
        let cart_pos = position msg ! cart_idx;
            pole_angle = position msg ! pole_idx;
            cart_vel = \<bar>velocity msg ! cart_idx\<bar>;
            s1 = s\<lparr>cart_positions := cart_positions s @ [cart_pos]\<rparr>;
            s2 = s1\<lparr>pole_angles := pole_angles s1 @ [\<bar>pole_angle\<bar>]\<rparr>;
            l1 = (if \<bar>cart_pos\<bar> > 2.5 then [Warn_cart_exceeded_limit cart_pos] else [])
        in (case last_earthquake_time s2 of
              None \<Rightarrow> returned s2 l1
            | Some t_eq \<Rightarrow>
                if cart_vel < 0.05 then
                  let stable_time = simulation_time s2;
                      s3 = s2\<lparr>last_stable_time := Some stable_time\<rparr>;
                      recovery_time = stable_time - t_eq;
                      s4 = s3\<lparr>recovery_times := recovery_times s3 @ [recovery_time]\<rparr>;
                      s5 = s4\<lparr>last_earthquake_time := None\<rparr>
                  in returned s5 (l1 @ [Info_recovery_time recovery_time])
                else returned s2 l1))"

text \<open>
  \<^verbatim>\<open>joint_state_callback\<close>: the two \<^verbatim>\<open>msg.name.index\<close> calls, whose ValueError the
  \<^verbatim>\<open>except\<close> clause turns into a warning; nothing else is caught.
\<close>

definition joint_state_callback :: "performance_metrics \<Rightarrow> joint_state \<Rightarrow> outcome" where
  "joint_state_callback s msg =
     (case index_of (name msg) ''cart_to_base'' of
        None \<Rightarrow> returned s [Warn_joint_names_not_found]
      | Some cart_idx \<Rightarrow>
          (case index_of (name msg) ''pole_joint'' of
             None \<Rightarrow> returned s [Warn_joint_names_not_found]
           | Some pole_idx \<Rightarrow> record_joint_state s msg cart_idx pole_idx))"

text \<open>\<^verbatim>\<open>force_callback\<close>.\<close>

definition force_callback :: "performance_metrics \<Rightarrow> real \<Rightarrow> outcome" where
  "force_callback s data =
     (let s1 = s\<lparr>control_forces := control_forces s @ [\<bar>data\<bar>]\<rparr>;
          s2 = s1\<lparr>control_timestamps := control_timestamps s1 @ [simulation_time s1]\<rparr>
      in returned s2 [])"

text \<open>\<^verbatim>\<open>earthquake_callback\<close>.\<close>

definition earthquake_callback :: "performance_metrics \<Rightarrow> real \<Rightarrow> outcome" where
  "earthquake_callback s data =
     (if \<bar>data\<bar> > 5.0
      then returned (s\<lparr>last_earthquake_time := Some (simulation_time s)\<rparr>) [Info_earthquake_detected]
      else returned s [])"

text \<open>\<^verbatim>\<open>clock_callback\<close>: \<^verbatim>\<open>msg.clock.sec + msg.clock.nanosec * 1e-9\<close>.\<close>

definition clock_seconds :: "clock_time \<Rightarrow> real" where
  "clock_seconds c = real_of_int (sec c) + real (nanosec c) * (1 / 1000000000)"

definition clock_callback :: "performance_metrics \<Rightarrow> clock_time \<Rightarrow> outcome" where
  "clock_callback s c = returned (s\<lparr>simulation_time := clock_seconds c\<rparr>) []"

text \<open>The guard of \<^verbatim>\<open>compute_metrics\<close> (line 91).\<close>

definition not_enough_data :: "performance_metrics \<Rightarrow> bool" where
  "not_enough_data s \<longleftrightarrow>
     length (pole_angles s) < 10 \<or> length (cart_positions s) < 10 \<or> length (control_forces s) < 10"

text \<open>
  Lines 101 to 108: the control rate and its status. The differences, their mean, the
  quotient and the comparison with the band are exact here; the float64 rounding of the
  source, which can decide the comparison at the edges of the band, is not modelled.
\<close>

definition control_rate :: "real list \<Rightarrow> np_float option \<times> rate_status" where
  "control_rate ts =
     (if length ts > 1 then
        let control_intervals = np_diff ts;
            rate = np_reciprocal (np_mean control_intervals)
        in (Some rate, if in_band (quarter rate) then Meets_50Hz else Outside_50Hz_range)
      else (None, Not_enough_data_to_compute))"

text \<open>Lines 110 to 113: the efficiency, clamped.\<close>

definition efficiency :: "real \<Rightarrow> real" where
  "efficiency peak =
     (let max_allowed_force = 250.0;
          efficiency_percentage = (1 - (peak / max_allowed_force)) * 100
      in max 0 (min efficiency_percentage 100))"

text \<open>Lines 115 to 120: the log calls that need no further computation.\<close>

definition report_lines :: "report \<Rightarrow> log_entry list" where
  "report_lines r =
     [Info_performance_metrics,
      Info_max_pole_angle_deviation (max_pole_angle_dev r),
      Info_rms_cart_position_error (rms_cart_position r),
      Info_peak_control_force (peak_force r),
      Info_control_effort_efficiency (efficiency_percentage r),
      (case avg_recovery_time r of
         Some t \<Rightarrow> Info_average_recovery_time t
       | None \<Rightarrow> Info_no_recovery_data)]"

text \<open>
  Lines 96 to 121 of \<^verbatim>\<open>compute_metrics\<close>, past the guard. \<^verbatim>\<open>max\<close> of an empty list
  raises ValueError before anything is logged; line 121 divides \<^verbatim>\<open>avg_control_rate\<close>
  by 4 inside the format string, a TypeError when it is \<^verbatim>\<open>None\<close>, after the six
  earlier lines have been logged. The second component is the report on a normal return.
\<close>

definition metrics :: "performance_metrics \<Rightarrow> outcome \<times> report option" where
  "metrics s =
     (case py_max (pole_angles s) of
        None \<Rightarrow> (raising s [] ValueError, None)
      | Some max_dev \<Rightarrow>
     (case py_max (control_forces s) of
        None \<Rightarrow> (raising s [] ValueError, None)
      | Some peak \<Rightarrow>
          let (rate, status) = control_rate (control_timestamps s);
              r = \<lparr>max_pole_angle_dev = max_dev,
                   rms_cart_position = np_rms (cart_positions s),
                   peak_force = peak,
                   avg_recovery_time =
                     (if recovery_times s \<noteq> [] then Some (np_mean (recovery_times s)) else None),
                   avg_control_rate = rate,
                   control_rate_status = status,
                   efficiency_percentage = efficiency peak\<rparr>
          in (case rate of
                None \<Rightarrow> (raising s (report_lines r) TypeError, None)
              | Some v \<Rightarrow>
                  (returned s (report_lines r @ [Info_control_rate (quarter v) status]), Some r))))"

text \<open>\<^verbatim>\<open>compute_metrics\<close>: the outcome, and the report when one was produced.\<close>

definition compute_metrics :: "performance_metrics \<Rightarrow> outcome \<times> report option" where
  "compute_metrics s =
     (if not_enough_data s then (returned s [Warn_not_enough_data], None) else metrics s)"

subsection \<open>Dispatch\<close>

text \<open>
  The four subscriptions and the timer created in \<^verbatim>\<open>__init__\<close> (lines 23 to 26 and 39):
  the executor runs one callback at a time, to completion.
\<close>

datatype event =
    JointState joint_state
  | CmdForce real
  | EarthquakeForce real
  | Clock clock_time
  | Timer

fun dispatch :: "performance_metrics \<Rightarrow> event \<Rightarrow> outcome" where
  "dispatch s (JointState msg) = joint_state_callback s msg"
| "dispatch s (CmdForce d) = force_callback s d"
| "dispatch s (EarthquakeForce d) = earthquake_callback s d"
| "dispatch s (Clock c) = clock_callback s c"
| "dispatch s Timer = fst (compute_metrics s)"

text \<open>
  \<^verbatim>\<open>rclpy.spin\<close> over a sequence of events: an exception that escapes a callback ends
  the spin (\<^verbatim>\<open>main\<close> catches KeyboardInterrupt only), and the later events are not
  delivered.
\<close>

fun spin :: "performance_metrics \<Rightarrow> event list \<Rightarrow> outcome" where
  "spin s [] = returned s []"
| "spin s (e # es) =
     (let r = dispatch s e in
      case raised r of
        Some err \<Rightarrow> r
      | None \<Rightarrow> (let r' = spin (store r) es in r'\<lparr>logs := logs r @ logs r'\<rparr>))"

subsection \<open>Conditions on events\<close>

text \<open>
  A JointState message on which \<^verbatim>\<open>joint_state_callback\<close> reaches the test of line 64
  and finds it true: both names are present, the three subscripts are in range, and the
  magnitude of the cart velocity is below 0.05.
\<close>

definition settles :: "joint_state \<Rightarrow> bool" where
  "settles msg \<longleftrightarrow>
     (case index_of (name msg) ''cart_to_base'' of
        None \<Rightarrow> False
      | Some cart_idx \<Rightarrow>
          (case index_of (name msg) ''pole_joint'' of
             None \<Rightarrow> False
           | Some pole_idx \<Rightarrow>
               cart_idx < length (position msg) \<and> pole_idx < length (position msg) \<and>
               cart_idx < length (velocity msg) \<and> \<bar>velocity msg ! cart_idx\<bar> < 0.05))"

fun settling :: "event \<Rightarrow> bool" where
  "settling (JointState msg) = settles msg"
| "settling e = False"

text \<open>An earthquake force above the threshold of line 81.\<close>

fun shaking :: "event \<Rightarrow> bool" where
  "shaking (EarthquakeForce d) = (\<bar>d\<bar> > 5.0)"
| "shaking e = False"

subsection \<open>Sample runs\<close>

text \<open>A JointState message with both joints at rest in the origin.\<close>

definition at_rest :: joint_state where
  "at_rest = \<lparr>name = [''cart_to_base'', ''pole_joint''], position = [0, 0], velocity = [0, 0]\<rparr>"

text \<open>Ten JointState messages and ten command forces \<open>f\<close>, with no clock message.\<close>

definition steady_run :: "real \<Rightarrow> event list" where
  "steady_run f = replicate 10 (JointState at_rest) @ replicate 10 (CmdForce f)"

section \<open>Properties\<close>

subsection \<open>Outcomes and the spin loop\<close>

lemma index_of_None: "index_of xs y = None \<longleftrightarrow> y \<notin> set xs"
  by (induction xs) auto

lemma returned_simps [simp]:
  "store (returned s l) = s" "logs (returned s l) = l" "raised (returned s l) = None"
  by (simp_all add: returned_def)

lemma raising_simps [simp]:
  "store (raising s l e) = s" "logs (raising s l e) = l" "raised (raising s l e) = Some e"
  by (simp_all add: raising_def)

lemma store_metrics: "store (fst (metrics s)) = s"
  by (simp add: metrics_def Let_def split: option.splits prod.splits)

lemma store_compute_metrics: "store (fst (compute_metrics s)) = s"
  by (simp add: compute_metrics_def store_metrics)

lemma store_spin_Cons:
  "store (spin s (e # es)) =
     (if raised (dispatch s e) = None then store (spin (store (dispatch s e)) es)
      else store (dispatch s e))"
  by (simp add: Let_def split: option.splits)

lemma raised_spin_Cons:
  "raised (spin s (e # es)) =
     (if raised (dispatch s e) = None then raised (spin (store (dispatch s e)) es)
      else raised (dispatch s e))"
  by (simp add: Let_def split: option.splits)

subsection \<open>A JointState message without a required joint name\<close>

text \<open>
  Claim C2. When \<^verbatim>\<open>cart_to_base\<close> or \<^verbatim>\<open>pole_joint\<close> is not among the names of a
  JointState message, \<^verbatim>\<open>joint_state_callback\<close> returns normally with every attribute
  of the node as it was (no series grows, the earthquake time and the simulation time are
  untouched), and the warning is the only log call.
\<close>

theorem missing_joint_name_drops_event:
  assumes "''cart_to_base'' \<notin> set (name msg) \<or> ''pole_joint'' \<notin> set (name msg)"
  shows "joint_state_callback s msg =
           \<lparr>store = s, logs = [Warn_joint_names_not_found], raised = None\<rparr>"
proof -
  from assms have "index_of (name msg) ''cart_to_base'' = None \<or>
      index_of (name msg) ''pole_joint'' = None"
    by (simp add: index_of_None)
  then show ?thesis
    by (auto simp: joint_state_callback_def returned_def split: option.splits)
qed

theorem missing_joint_name_drops_event_witness:
  "joint_state_callback init
       \<lparr>name = [''cart_to_base'', ''pole''], position = [1, 2], velocity = [3, 4]\<rparr> =
     \<lparr>store = init, logs = [Warn_joint_names_not_found], raised = None\<rparr>"
  using missing_joint_name_drops_event
    [of "\<lparr>name = [''cart_to_base'', ''pole''], position = [1, 2], velocity = [3, 4]\<rparr>" init]
  by simp

subsection \<open>The two control series\<close>

lemma record_joint_state_control:
  "control_forces (store (record_joint_state s msg ci pj)) = control_forces s \<and>
   control_timestamps (store (record_joint_state s msg ci pj)) = control_timestamps s"
  by (simp add: record_joint_state_def Let_def split: option.splits)

lemma joint_state_callback_control:
  "control_forces (store (joint_state_callback s msg)) = control_forces s \<and>
   control_timestamps (store (joint_state_callback s msg)) = control_timestamps s"
  by (simp add: joint_state_callback_def record_joint_state_control split: option.splits)

lemma force_callback_control:
  "control_forces (store (force_callback s d)) = control_forces s @ [\<bar>d\<bar>] \<and>
   control_timestamps (store (force_callback s d)) = control_timestamps s @ [simulation_time s]"
  by (simp add: force_callback_def Let_def)

lemma earthquake_callback_control:
  "control_forces (store (earthquake_callback s d)) = control_forces s \<and>
   control_timestamps (store (earthquake_callback s d)) = control_timestamps s"
  by (simp add: earthquake_callback_def)

lemma clock_callback_control:
  "control_forces (store (clock_callback s c)) = control_forces s \<and>
   control_timestamps (store (clock_callback s c)) = control_timestamps s"
  by (simp add: clock_callback_def)

lemma dispatch_control:
  assumes "\<forall>d. e \<noteq> CmdForce d"
  shows "control_forces (store (dispatch s e)) = control_forces s \<and>
         control_timestamps (store (dispatch s e)) = control_timestamps s"
  using assms
  by (cases e)
     (simp_all add: joint_state_callback_control earthquake_callback_control
        clock_callback_control store_compute_metrics)

lemma dispatch_aligned:
  assumes "length (control_timestamps s) = length (control_forces s)"
  shows "length (control_timestamps (store (dispatch s e))) =
         length (control_forces (store (dispatch s e)))"
  using assms
  by (cases e)
     (simp_all add: joint_state_callback_control force_callback_control
        earthquake_callback_control clock_callback_control store_compute_metrics)

lemma spin_aligned:
  "length (control_timestamps s) = length (control_forces s) \<Longrightarrow>
   length (control_timestamps (store (spin s evs))) = length (control_forces (store (spin s evs)))"
proof (induction evs arbitrary: s)
  case Nil
  then show ?case by simp
next
  case (Cons e es)
  from Cons.prems
  have "length (control_timestamps (store (dispatch s e))) =
        length (control_forces (store (dispatch s e)))"
    by (rule dispatch_aligned)
  with Cons.IH show ?case
    by (simp only: store_spin_Cons split: if_splits) simp
qed

lemma init_aligned: "length (control_timestamps init) = length (control_forces init)"
  by (simp add: init_def)

text \<open>
  Claim C8. After every sequence of callbacks run from the node's initial state
  (JointState, command force, earthquake force, clock, and the periodic timer), the list of
  control timestamps and the list of control forces have the same length: the force
  callback appends one element to each, and every other callback leaves both lists as
  they were.
\<close>

theorem control_series_same_length:
  "length (control_timestamps (store (spin init evs))) =
     length (control_forces (store (spin init evs))) \<and>
   control_forces (store (dispatch s (CmdForce d))) = control_forces s @ [\<bar>d\<bar>] \<and>
   control_timestamps (store (dispatch s (CmdForce d))) =
     control_timestamps s @ [simulation_time s] \<and>
   ((\<forall>d'. e \<noteq> CmdForce d') \<longrightarrow>
      control_forces (store (dispatch s e)) = control_forces s \<and>
      control_timestamps (store (dispatch s e)) = control_timestamps s)"
  using spin_aligned [OF init_aligned, of evs] force_callback_control [of s d]
    dispatch_control [of e s]
  by simp

theorem control_series_same_length_witness:
  "control_forces (store (spin init
      [CmdForce 3, Clock \<lparr>sec = 1, nanosec = 500000000\<rparr>, CmdForce (- 2), Timer])) = [3, 2] \<and>
   control_timestamps (store (spin init
      [CmdForce 3, Clock \<lparr>sec = 1, nanosec = 500000000\<rparr>, CmdForce (- 2), Timer])) = [0, 3 / 2] \<and>
   control_forces (store (dispatch init (CmdForce (- 2)))) = [2] \<and>
   control_timestamps (store (dispatch init (CmdForce (- 2)))) = [0] \<and>
   control_forces (store (dispatch init (EarthquakeForce 6))) = [] \<and>
   control_timestamps (store (dispatch init (EarthquakeForce 6))) = []"
  using control_series_same_length
    [of "[CmdForce 3, Clock \<lparr>sec = 1, nanosec = 500000000\<rparr>, CmdForce (- 2), Timer]"
        init "- 2" "EarthquakeForce 6"]
  by (simp add: init_def force_callback_def clock_callback_def clock_seconds_def
      compute_metrics_def not_enough_data_def earthquake_callback_def Let_def)

subsection \<open>A JointState message with arrays that are too short\<close>

text \<open>
  Claim C10. When both \<^verbatim>\<open>cart_to_base\<close> and \<^verbatim>\<open>pole_joint\<close> are among the names
  but the position or the velocity array does not reach a looked-up index, an IndexError
  leaves \<^verbatim>\<open>joint_state_callback\<close> (the \<^verbatim>\<open>except\<close> clause catches ValueError only);
  the node's attributes are as they were and nothing is logged, since the three subscripts
  come before the first append.
\<close>

theorem short_arrays_raise_index_error:
  assumes "index_of (name msg) ''cart_to_base'' = Some cart_idx"
    and "index_of (name msg) ''pole_joint'' = Some pole_idx"
    and "\<not> (cart_idx < length (position msg) \<and> pole_idx < length (position msg) \<and>
            cart_idx < length (velocity msg))"
  shows "joint_state_callback s msg = \<lparr>store = s, logs = [], raised = Some IndexError\<rparr>"
  using assms
  by (auto simp: joint_state_callback_def record_joint_state_def raising_def)

theorem short_arrays_raise_index_error_witness:
  "index_of [''pole_joint'', ''cart_to_base''] ''cart_to_base'' = Some 1 \<and>
   index_of [''pole_joint'', ''cart_to_base''] ''pole_joint'' = Some 0 \<and>
   joint_state_callback init
       \<lparr>name = [''pole_joint'', ''cart_to_base''], position = [1, 2], velocity = [3]\<rparr> =
     \<lparr>store = init, logs = [], raised = Some IndexError\<rparr>"
  using short_arrays_raise_index_error
    [of "\<lparr>name = [''pole_joint'', ''cart_to_base''], position = [1, 2], velocity = [3]\<rparr>" 1 0 init]
  by simp

subsection \<open>Recovery after an earthquake\<close>

lemma settlesD:
  assumes "settles msg"
  obtains ci pj where "index_of (name msg) ''cart_to_base'' = Some ci"
    "index_of (name msg) ''pole_joint'' = Some pj"
    "ci < length (position msg)" "pj < length (position msg)" "ci < length (velocity msg)"
    "\<bar>velocity msg ! ci\<bar> < 0.05"
  using assms by (auto simp: settles_def split: option.splits)

lemma joint_state_callback_settles:
  assumes "settles msg" and "last_earthquake_time s = Some t0"
  shows "recovery_times (store (joint_state_callback s msg)) =
           recovery_times s @ [simulation_time s - t0] \<and>
         last_earthquake_time (store (joint_state_callback s msg)) = None \<and>
         simulation_time (store (joint_state_callback s msg)) = simulation_time s \<and>
         raised (joint_state_callback s msg) = None"
proof -
  from assms(1) obtain ci pj where "index_of (name msg) ''cart_to_base'' = Some ci"
    "index_of (name msg) ''pole_joint'' = Some pj"
    "ci < length (position msg)" "pj < length (position msg)" "ci < length (velocity msg)"
    "\<bar>velocity msg ! ci\<bar> < 0.05"
    by (rule settlesD)
  with assms(2) show ?thesis
    by (simp add: joint_state_callback_def record_joint_state_def Let_def)
qed

text \<open>
  Claim C4. An earthquake force of magnitude above 5.0 arrives when the simulation time is
  \<open>t0 = simulation_time s\<close>; the clock then moves to \<open>t1 = clock_seconds c\<close>; a JointState
  message with both names, arrays long enough and a cart velocity of magnitude below 0.05
  follows. The callback returns normally, the recovery times have gained exactly the one
  entry \<open>t1 - t0\<close>, and the earthquake time is \<open>None\<close> again.
\<close>

theorem recovery_after_disturbance:
  assumes "\<bar>d\<bar> > 5" and "settles msg"
  shows "let s1 = store (earthquake_callback s d);
             s2 = store (clock_callback s1 c);
             r = joint_state_callback s2 msg
         in recovery_times (store r) = recovery_times s @ [clock_seconds c - simulation_time s] \<and>
            last_earthquake_time (store r) = None \<and> raised r = None"
proof -
  have "last_earthquake_time (store (clock_callback (store (earthquake_callback s d)) c)) =
          Some (simulation_time s)"
    using assms(1) by (simp add: earthquake_callback_def clock_callback_def)
  from joint_state_callback_settles [OF assms(2) this] show ?thesis
    using assms(1) by (simp add: Let_def earthquake_callback_def clock_callback_def)
qed

theorem recovery_after_disturbance_witness:
  "let msg = \<lparr>name = [''cart_to_base'', ''pole_joint''], position = [1, 0.1], velocity = [0.02, 3]\<rparr>;
       s0 = init\<lparr>simulation_time := 2\<rparr>;
       s1 = store (earthquake_callback s0 6);
       s2 = store (clock_callback s1 \<lparr>sec = 5, nanosec = 500000000\<rparr>);
       r = joint_state_callback s2 msg
   in \<bar>6 :: real\<bar> > 5 \<and> settles msg \<and> recovery_times (store r) = [7 / 2] \<and>
      last_earthquake_time (store r) = None \<and> raised r = None"
  using recovery_after_disturbance
    [of 6 "\<lparr>name = [''cart_to_base'', ''pole_joint''], position = [1, 0.1], velocity = [0.02, 3]\<rparr>"
        "init\<lparr>simulation_time := 2\<rparr>" "\<lparr>sec = 5, nanosec = 500000000\<rparr>"]
  by (simp add: Let_def settles_def init_def clock_seconds_def)

subsection \<open>Two earthquakes before the cart settles\<close>

lemma record_joint_state_quiet:
  assumes "\<not> (ci < length (position msg) \<and> pj < length (position msg) \<and>
              ci < length (velocity msg) \<and> \<bar>velocity msg ! ci\<bar> < 0.05)"
  shows "recovery_times (store (record_joint_state s msg ci pj)) = recovery_times s \<and>
         last_earthquake_time (store (record_joint_state s msg ci pj)) = last_earthquake_time s \<and>
         simulation_time (store (record_joint_state s msg ci pj)) = simulation_time s"
  using assms
  by (auto simp: record_joint_state_def Let_def split: option.splits)

lemma joint_state_callback_quiet:
  assumes "\<not> settles msg"
  shows "recovery_times (store (joint_state_callback s msg)) = recovery_times s \<and>
         last_earthquake_time (store (joint_state_callback s msg)) = last_earthquake_time s \<and>
         simulation_time (store (joint_state_callback s msg)) = simulation_time s"
proof (cases "index_of (name msg) ''cart_to_base''")
  case None
  then show ?thesis by (simp add: joint_state_callback_def)
next
  case ci: (Some ci)
  show ?thesis
  proof (cases "index_of (name msg) ''pole_joint''")
    case None
    with ci show ?thesis by (simp add: joint_state_callback_def)
  next
    case (Some pj)
    with ci assms
    have "\<not> (ci < length (position msg) \<and> pj < length (position msg) \<and>
              ci < length (velocity msg) \<and> \<bar>velocity msg ! ci\<bar> < 0.05)"
      by (simp add: settles_def)
    from record_joint_state_quiet [OF this] ci Some show ?thesis
      by (simp add: joint_state_callback_def)
  qed
qed

lemma dispatch_recovery_times:
  "\<not> settling e \<Longrightarrow> recovery_times (store (dispatch s e)) = recovery_times s"
  by (cases e)
     (simp_all add: joint_state_callback_quiet force_callback_def Let_def
        earthquake_callback_def clock_callback_def store_compute_metrics)

lemma dispatch_last_earthquake_time:
  "\<not> settling e \<Longrightarrow> \<not> shaking e \<Longrightarrow>
   last_earthquake_time (store (dispatch s e)) = last_earthquake_time s"
  by (cases e)
     (simp_all add: joint_state_callback_quiet force_callback_def Let_def
        earthquake_callback_def clock_callback_def store_compute_metrics)

lemma spin_recovery_times:
  "\<forall>e\<in>set es. \<not> settling e \<Longrightarrow> recovery_times (store (spin s es)) = recovery_times s"
proof (induction es arbitrary: s)
  case Nil
  then show ?case by simp
next
  case (Cons e es)
  then show ?case
    by (simp only: store_spin_Cons split: if_splits) (simp add: dispatch_recovery_times)
qed

lemma spin_last_earthquake_time:
  "\<forall>e\<in>set es. \<not> settling e \<and> \<not> shaking e \<Longrightarrow>
   last_earthquake_time (store (spin s es)) = last_earthquake_time s"
proof (induction es arbitrary: s)
  case Nil
  then show ?case by simp
next
  case (Cons e es)
  then show ?case
    by (simp only: store_spin_Cons split: if_splits) (simp add: dispatch_last_earthquake_time)
qed

lemma raised_spin_ConsD:
  "raised (spin s (e # es)) = None \<Longrightarrow>
   raised (dispatch s e) = None \<and> raised (spin (store (dispatch s e)) es) = None"
  by (cases "raised (dispatch s e)") (simp_all add: Let_def)

lemma spin_append:
  "raised (spin s xs) = None \<Longrightarrow>
   store (spin s (xs @ ys)) = store (spin (store (spin s xs)) ys) \<and>
   raised (spin s (xs @ ys)) = raised (spin (store (spin s xs)) ys)"
proof (induction xs arbitrary: s)
  case Nil
  then show ?case by simp
next
  case (Cons e es)
  from raised_spin_ConsD [OF Cons.prems] have d: "raised (dispatch s e) = None"
    and "raised (spin (store (dispatch s e)) es) = None"
    by blast+
  from Cons.IH [OF this(2)] d show ?case
    by (simp only: append_Cons store_spin_Cons raised_spin_Cons) simp
qed

lemma raised_spin_prefix:
  "raised (spin s (xs @ ys)) = None \<Longrightarrow> raised (spin s xs) = None"
proof (induction xs arbitrary: s)
  case Nil
  then show ?case by simp
next
  case (Cons e es)
  from Cons.prems have "raised (spin s (e # (es @ ys))) = None"
    by (simp only: append_Cons)
  from raised_spin_ConsD [OF this] have d: "raised (dispatch s e) = None"
    and "raised (spin (store (dispatch s e)) (es @ ys)) = None"
    by blast+
  from Cons.IH [OF this(2)] d show ?case
    by (simp only: raised_spin_Cons) simp
qed

lemma spin_snoc:
  "raised (spin s xs) = None \<Longrightarrow> store (spin s (xs @ [e])) = store (dispatch (store (spin s xs)) e)"
  using spin_append [of s xs "[e]"]
  by (simp add: Let_def split: option.splits)

text \<open>
  Claim C3. Two earthquake forces of magnitude above 5.0 are delivered, with any events
  between them and after them except a JointState message that settles (and, after the
  second one, a further earthquake above the threshold), and no callback raises. The
  settling JointState message that follows appends exactly one entry to the recovery times:
  the simulation time at that message minus the simulation time at which the second
  earthquake force was handled. The time of the first one plays no part.
\<close>

theorem rearmed_recovery_uses_second_disturbance:
  assumes "\<bar>da\<bar> > 5" and "\<bar>db\<bar> > 5"
    and "\<forall>e\<in>set between. \<not> settling e"
    and "\<forall>e\<in>set later. \<not> settling e \<and> \<not> shaking e"
    and "settles msg"
    and "raised (spin s (EarthquakeForce da # between @ EarthquakeForce db # later)) = None"
  shows "recovery_times
           (store (spin s (EarthquakeForce da # between @ EarthquakeForce db # later @ [JointState msg]))) =
         recovery_times s @
           [simulation_time (store (spin s (EarthquakeForce da # between @ EarthquakeForce db # later))) -
            simulation_time (store (spin s (EarthquakeForce da # between)))]"
proof -
  let ?pre = "EarthquakeForce da # between"
  let ?sa = "store (spin s ?pre)"
  let ?sq = "store (dispatch ?sa (EarthquakeForce db))"
  let ?sb = "store (spin s (?pre @ EarthquakeForce db # later))"
  have run: "raised (spin s (?pre @ EarthquakeForce db # later)) = None"
    using assms(6) by simp
  then have pre: "raised (spin s ?pre) = None"
    by (rule raised_spin_prefix)
  have "\<forall>e\<in>set ?pre. \<not> settling e"
    using assms(3) by simp
  then have rt_a: "recovery_times ?sa = recovery_times s"
    by (rule spin_recovery_times)
  have q: "raised (dispatch ?sa (EarthquakeForce db)) = None"
    by (simp add: earthquake_callback_def)
  have sq: "recovery_times ?sq = recovery_times ?sa"
    "last_earthquake_time ?sq = Some (simulation_time ?sa)"
    using assms(2) by (simp_all add: earthquake_callback_def)
  have sb: "?sb = store (spin ?sq later)"
    using spin_append [OF pre, of "EarthquakeForce db # later"] q
    by (simp only: store_spin_Cons) simp
  have rt_b: "recovery_times ?sb = recovery_times s"
    using spin_recovery_times [of later ?sq] assms(4) sq(1) rt_a by (simp only: sb) simp
  have le_b: "last_earthquake_time ?sb = Some (simulation_time ?sa)"
    using spin_last_earthquake_time [OF assms(4), of ?sq] sq(2) by (simp only: sb)
  have "store (spin s ((?pre @ EarthquakeForce db # later) @ [JointState msg])) =
        store (dispatch ?sb (JointState msg))"
    using run by (rule spin_snoc)
  then have "recovery_times (store (spin s ((?pre @ EarthquakeForce db # later) @ [JointState msg]))) =
      recovery_times ?sb @ [simulation_time ?sb - simulation_time ?sa]"
    using joint_state_callback_settles [OF assms(5) le_b] by simp
  then show ?thesis
    using rt_b by (simp only: append_Cons append_assoc)
qed

theorem rearmed_recovery_uses_second_disturbance_witness:
  "recovery_times (store (spin init
      (EarthquakeForce 6 # [Clock \<lparr>sec = 1, nanosec = 0\<rparr>, JointState (at_rest\<lparr>velocity := [1, 0]\<rparr>)] @
       EarthquakeForce (- 7) # [Clock \<lparr>sec = 3, nanosec = 500000000\<rparr>, CmdForce 2] @
       [JointState at_rest]))) = [5 / 2]"
  using rearmed_recovery_uses_second_disturbance
    [of 6 "- 7" "[Clock \<lparr>sec = 1, nanosec = 0\<rparr>, JointState (at_rest\<lparr>velocity := [1, 0]\<rparr>)]"
        "[Clock \<lparr>sec = 3, nanosec = 500000000\<rparr>, CmdForce 2]" at_rest init]
  by (simp add: settles_def at_rest_def init_def clock_seconds_def clock_callback_def
      earthquake_callback_def force_callback_def joint_state_callback_def
      record_joint_state_def Let_def)

subsection \<open>The periodic report\<close>

lemma py_max_Some: "xs \<noteq> [] \<Longrightarrow> \<exists>m. py_max xs = Some m"
  by (cases xs) simp_all

lemma py_max_Max: "py_max xs = Some m \<Longrightarrow> m = Max (set xs)"
  by (cases xs) (auto simp: Max.set_eq_fold [symmetric])

lemma control_rate_long:
  "1 < length ts \<Longrightarrow>
   control_rate ts =
     (Some (np_reciprocal (np_mean (np_diff ts))),
      if in_band (quarter (np_reciprocal (np_mean (np_diff ts)))) then Meets_50Hz
      else Outside_50Hz_range)"
  by (simp add: control_rate_def Let_def)

lemma control_rate_short:
  "\<not> 1 < length ts \<Longrightarrow> control_rate ts = (None, Not_enough_data_to_compute)"
  by (simp add: control_rate_def)

lemma metrics_Some:
  assumes "snd (metrics s) = Some r"
  shows "1 < length (control_timestamps s) \<and>
         py_max (pole_angles s) = Some (max_pole_angle_dev r) \<and>
         py_max (control_forces s) = Some (peak_force r) \<and>
         rms_cart_position r = np_rms (cart_positions s) \<and>
         avg_recovery_time r =
           (if recovery_times s \<noteq> [] then Some (np_mean (recovery_times s)) else None) \<and>
         (avg_control_rate r, control_rate_status r) = control_rate (control_timestamps s) \<and>
         efficiency_percentage r = efficiency (peak_force r) \<and>
         (\<exists>v. avg_control_rate r = Some v \<and>
           fst (metrics s) =
             returned s (report_lines r @ [Info_control_rate (quarter v) (control_rate_status r)]))"
proof (cases "1 < length (control_timestamps s)")
  case True
  with assms show ?thesis
    by (auto simp: metrics_def control_rate_long Let_def split: option.splits)
next
  case False
  with assms show ?thesis
    by (auto simp: metrics_def control_rate_short Let_def split: option.splits)
qed

lemma metrics_produces:
  assumes "pole_angles s \<noteq> []" "control_forces s \<noteq> []" "1 < length (control_timestamps s)"
  shows "\<exists>r. snd (metrics s) = Some r"
proof -
  from assms obtain a f where "py_max (pole_angles s) = Some a" "py_max (control_forces s) = Some f"
    using py_max_Some by blast
  with assms(3) show ?thesis
    by (simp add: metrics_def control_rate_long Let_def)
qed

lemma compute_metrics_Some:
  "snd (compute_metrics s) = Some r \<Longrightarrow>
   \<not> not_enough_data s \<and> snd (metrics s) = Some r \<and> fst (compute_metrics s) = fst (metrics s)"
  by (simp add: compute_metrics_def split: if_splits)

lemma compute_metrics_produces:
  assumes "\<not> not_enough_data s" "length (control_timestamps s) = length (control_forces s)"
  shows "\<exists>r. snd (compute_metrics s) = Some r"
proof -
  from assms have "pole_angles s \<noteq> []" "control_forces s \<noteq> []" "1 < length (control_timestamps s)"
    by (auto simp: not_enough_data_def)
  then show ?thesis
    using metrics_produces assms(1) by (simp add: compute_metrics_def)
qed

lemma compute_metrics_report:
  assumes "snd (compute_metrics s) = Some r"
  shows "\<exists>v. avg_control_rate r = Some v \<and>
           fst (compute_metrics s) =
             returned s (report_lines r @ [Info_control_rate (quarter v) (control_rate_status r)])"
  using compute_metrics_Some [OF assms] metrics_Some [of s r] by simp

lemma efficiency_formula:
  "efficiency p = max 0 (min ((1 - p / 250) * 100) 100)"
  by (simp add: efficiency_def Let_def)

lemma steady_store:
  "store (spin init (steady_run f)) =
     \<lparr>pole_angles = replicate 10 0, cart_positions = replicate 10 0,
      control_forces = replicate 10 \<bar>f\<bar>, recovery_times = [],
      control_timestamps = replicate 10 0, last_earthquake_time = None,
      last_stable_time = None, simulation_time = 0\<rparr>"
  by (simp add: steady_run_def at_rest_def init_def eval_nat_numeral joint_state_callback_def
      record_joint_state_def force_callback_def Let_def)


lemma steady_not_enough: "\<not> not_enough_data (store (spin init (steady_run f)))"
  by (simp add: steady_store not_enough_data_def)

lemma np_diff_constant: "set ts \<subseteq> {t} \<Longrightarrow> sum_list (np_diff ts) = 0"
  by (induction ts rule: np_diff.induct) simp_all

lemma replicate_ten: "replicate 10 x = [x, x, x, x, x, x, x, x, x, x]"
  by (simp add: eval_nat_numeral)

lemma np_mean_diff_constant: "set ts \<subseteq> {t} \<Longrightarrow> np_mean (np_diff ts) = 0"
  by (simp add: np_mean_def np_diff_constant)

text \<open>
  Claim C5. Whenever the pole angles, the cart positions or the control forces hold fewer
  than 10 samples, \<^verbatim>\<open>compute_metrics\<close> logs the insufficient-data warning and nothing
  else, changes nothing and produces no report. In every state the node reaches from its
  initial state, this guard is the only way past a report: with 10 samples or more in each
  of the three lists a report is produced and no exception is raised.
\<close>

theorem insufficient_data_guard:
  "((length (pole_angles s) < 10 \<or> length (cart_positions s) < 10 \<or> length (control_forces s) < 10) \<longrightarrow>
      compute_metrics s = (\<lparr>store = s, logs = [Warn_not_enough_data], raised = None\<rparr>, None)) \<and>
   (10 \<le> length (pole_angles (store (spin init evs))) \<and>
    10 \<le> length (cart_positions (store (spin init evs))) \<and>
    10 \<le> length (control_forces (store (spin init evs))) \<longrightarrow>
      (\<exists>r. snd (compute_metrics (store (spin init evs))) = Some r) \<and>
      raised (fst (compute_metrics (store (spin init evs)))) = None)"
proof (intro conjI impI)
  assume "length (pole_angles s) < 10 \<or> length (cart_positions s) < 10 \<or> length (control_forces s) < 10"
  then show "compute_metrics s = (\<lparr>store = s, logs = [Warn_not_enough_data], raised = None\<rparr>, None)"
    by (simp add: compute_metrics_def not_enough_data_def returned_def)
next
  let ?s = "store (spin init evs)"
  assume "10 \<le> length (pole_angles ?s) \<and> 10 \<le> length (cart_positions ?s) \<and>
    10 \<le> length (control_forces ?s)"
  then have enough: "\<not> not_enough_data ?s"
    by (simp add: not_enough_data_def not_less)
  from compute_metrics_produces [OF enough spin_aligned [OF init_aligned]]
  obtain r where r: "snd (compute_metrics ?s) = Some r" ..
  then show "\<exists>r. snd (compute_metrics ?s) = Some r" ..
  from compute_metrics_report [OF r] show "raised (fst (compute_metrics ?s)) = None"
    by auto
qed

theorem insufficient_data_guard_witness:
  "compute_metrics (init\<lparr>pole_angles := replicate 10 1, control_forces := replicate 10 1\<rparr>) =
     (\<lparr>store = init\<lparr>pole_angles := replicate 10 1, control_forces := replicate 10 1\<rparr>,
       logs = [Warn_not_enough_data], raised = None\<rparr>, None) \<and>
   (\<exists>r. snd (compute_metrics (store (spin init (steady_run 1)))) = Some r) \<and>
   raised (fst (compute_metrics (store (spin init (steady_run 1))))) = None"
proof -
  let ?s = "init\<lparr>pole_angles := replicate 10 1, control_forces := replicate 10 1\<rparr>"
  have few: "length (cart_positions ?s) < 10"
    by (simp add: init_def)
  have enough: "10 \<le> length (pole_angles (store (spin init (steady_run 1)))) \<and>
      10 \<le> length (cart_positions (store (spin init (steady_run 1)))) \<and>
      10 \<le> length (control_forces (store (spin init (steady_run 1))))"
    by (simp add: steady_store)
  from insufficient_data_guard [of ?s "steady_run 1"] few enough show ?thesis
    by blast
qed

text \<open>
  Claim C6. In every report, the peak force is the maximum of the control forces and the
  efficiency is \<open>(1 - peak / 250.0) * 100\<close> clamped to the interval from 0 to 100, which
  is the value logged: a peak force of 0 gives exactly 100, a peak force of 250 or more gives
  exactly 0, and the efficiency is never negative.
\<close>

theorem efficiency_clamped:
  assumes "snd (compute_metrics s) = Some r"
  shows "py_max (control_forces s) = Some (peak_force r) \<and>
         peak_force r = Max (set (control_forces s)) \<and>
         efficiency_percentage r = max 0 (min ((1 - peak_force r / 250.0) * 100) 100) \<and>
         Info_control_effort_efficiency (efficiency_percentage r) \<in> set (logs (fst (compute_metrics s))) \<and>
         (peak_force r = 0 \<longrightarrow> efficiency_percentage r = 100) \<and>
         (250 \<le> peak_force r \<longrightarrow> efficiency_percentage r = 0) \<and>
         0 \<le> efficiency_percentage r"
proof -
  from compute_metrics_Some [OF assms] have m: "snd (metrics s) = Some r"
    by simp
  from metrics_Some [OF m] have pk: "py_max (control_forces s) = Some (peak_force r)"
    and eff: "efficiency_percentage r = efficiency (peak_force r)"
    by simp_all
  from compute_metrics_report [OF assms]
  have "Info_control_effort_efficiency (efficiency_percentage r) \<in> set (logs (fst (compute_metrics s)))"
    by (auto simp: report_lines_def)
  with pk eff py_max_Max [OF pk] show ?thesis
    by (simp add: efficiency_formula)
qed


theorem efficiency_clamped_witness:
  "map_option efficiency_percentage (snd (compute_metrics (store (spin init (steady_run 0))))) = Some 100 \<and>
   map_option efficiency_percentage (snd (compute_metrics (store (spin init (steady_run 300))))) = Some 0 \<and>
   map_option efficiency_percentage (snd (compute_metrics (store (spin init (steady_run (- 50)))))) = Some 80"
proof -
  have r: "\<exists>r. snd (compute_metrics (store (spin init (steady_run f)))) = Some r" for f
    using compute_metrics_produces [OF steady_not_enough spin_aligned [OF init_aligned]] .
  have pk: "py_max (control_forces (store (spin init (steady_run f)))) = Some \<bar>f\<bar>" for f
    by (simp add: steady_store eval_nat_numeral)
  from r [of 0] obtain r0 where r0: "snd (compute_metrics (store (spin init (steady_run 0)))) = Some r0" ..
  from r [of 300] obtain r1 where r1: "snd (compute_metrics (store (spin init (steady_run 300)))) = Some r1" ..
  from r [of "- 50"] obtain r2 where r2: "snd (compute_metrics (store (spin init (steady_run (- 50))))) = Some r2" ..
  from efficiency_clamped [OF r0] efficiency_clamped [OF r1] efficiency_clamped [OF r2]
    pk [of 0] pk [of 300] pk [of "- 50"] r0 r1 r2
  show ?thesis by simp
qed

text \<open>
  Claim C9. In every state the node reaches with at least 10 samples in each of the three
  required lists, \<^verbatim>\<open>compute_metrics\<close> produces a report and leaves the node as it was,
  a second call right after it gives the same report and the same log lines, and two timer
  events in a row leave the node unchanged.
\<close>

theorem compute_metrics_idempotent:
  assumes "s = store (spin init evs)"
    and "10 \<le> length (pole_angles s)" and "10 \<le> length (cart_positions s)"
    and "10 \<le> length (control_forces s)"
  shows "(\<exists>r l. compute_metrics s = (\<lparr>store = s, logs = l, raised = None\<rparr>, Some r) \<and>
            compute_metrics (store (fst (compute_metrics s))) =
              (\<lparr>store = s, logs = l, raised = None\<rparr>, Some r) \<and>
            spin s [Timer, Timer] = \<lparr>store = s, logs = l @ l, raised = None\<rparr>)"
proof -
  from assms(2-4) have enough: "\<not> not_enough_data s"
    by (simp add: not_enough_data_def not_less)
  have "length (control_timestamps s) = length (control_forces s)"
    unfolding assms(1) by (rule spin_aligned [OF init_aligned])
  from compute_metrics_produces [OF enough this]
  obtain r where r: "snd (compute_metrics s) = Some r" ..
  from compute_metrics_report [OF r] obtain l where l: "fst (compute_metrics s) = returned s l"
    by blast
  from r l have cm: "compute_metrics s = (\<lparr>store = s, logs = l, raised = None\<rparr>, Some r)"
    by (simp add: prod_eq_iff returned_def)
  then have "spin s [Timer, Timer] = \<lparr>store = s, logs = l @ l, raised = None\<rparr>"
    by (simp add: Let_def returned_def)
  with cm show ?thesis
    by simp
qed

theorem compute_metrics_idempotent_witness:
  "store (spin (store (spin init (steady_run 1))) [Timer, Timer]) = store (spin init (steady_run 1)) \<and>
   raised (spin (store (spin init (steady_run 1))) [Timer, Timer]) = None \<and>
   compute_metrics (store (fst (compute_metrics (store (spin init (steady_run 1)))))) =
     compute_metrics (store (spin init (steady_run 1))) \<and>
   snd (compute_metrics (store (spin init (steady_run 1)))) \<noteq> None"
proof -
  let ?s = "store (spin init (steady_run 1))"
  have "10 \<le> length (pole_angles ?s)" "10 \<le> length (cart_positions ?s)"
    "10 \<le> length (control_forces ?s)"
    by (simp_all add: steady_store)
  from compute_metrics_idempotent [OF refl this] show ?thesis
    by (auto simp del: spin.simps)
qed

text \<open>
  The specification asks for an absent control-rate estimate when all control timestamps
  coincide. After ten JointState messages and ten command forces with no clock message in
  between, all ten timestamps are 0, the guard passes, and the rate of the report is present
  and infinite.
\<close>

theorem coincident_timestamps_counterexample:
  "length (pole_angles (store (spin init (steady_run 1)))) = 10 \<and>
   length (cart_positions (store (spin init (steady_run 1)))) = 10 \<and>
   length (control_forces (store (spin init (steady_run 1)))) = 10 \<and>
   control_timestamps (store (spin init (steady_run 1))) = [0, 0, 0, 0, 0, 0, 0, 0, 0, 0] \<and>
   raised (fst (compute_metrics (store (spin init (steady_run 1))))) = None \<and>
   map_option avg_control_rate (snd (compute_metrics (store (spin init (steady_run 1))))) =
     Some (Some Infinity) \<and>
   map_option avg_control_rate (snd (compute_metrics (store (spin init (steady_run 1))))) \<noteq>
     Some None"
  by (simp add: steady_store replicate_ten compute_metrics_def not_enough_data_def metrics_def
      control_rate_def np_mean_def np_reciprocal_def Let_def)

text \<open>
  Claim C1, as amended. In every state the node reaches in which all recorded control
  timestamps are the same number and the insufficient-data guard passes,
  \<^verbatim>\<open>compute_metrics\<close> raises nothing and produces a report, but the control-rate
  estimate is not absent: there is no guard, the numpy division by the zero mean gives
  \<^verbatim>\<open>inf\<close>, and the report carries an infinite rate with the status outside the band.
\<close>

theorem coincident_timestamps_give_infinite_rate:
  assumes "s = store (spin init evs)"
    and "10 \<le> length (pole_angles s)" and "10 \<le> length (cart_positions s)"
    and "10 \<le> length (control_forces s)"
    and "set (control_timestamps s) \<subseteq> {t}"
  shows "\<exists>r. snd (compute_metrics s) = Some r \<and>
           avg_control_rate r = Some Infinity \<and>
           control_rate_status r = Outside_50Hz_range \<and>
           fst (compute_metrics s) =
             \<lparr>store = s,
              logs = report_lines r @ [Info_control_rate Infinity Outside_50Hz_range],
              raised = None\<rparr>"
proof -
  from assms(2-4) have enough: "\<not> not_enough_data s"
    by (simp add: not_enough_data_def not_less)
  have "length (control_timestamps s) = length (control_forces s)"
    unfolding assms(1) by (rule spin_aligned [OF init_aligned])
  from compute_metrics_produces [OF enough this]
  obtain r where r: "snd (compute_metrics s) = Some r" ..
  from compute_metrics_Some [OF r] have m: "snd (metrics s) = Some r"
    by simp
  from metrics_Some [OF m] have long: "1 < length (control_timestamps s)"
    and cr: "(avg_control_rate r, control_rate_status r) = control_rate (control_timestamps s)"
    by simp_all
  from cr control_rate_long [OF long] np_mean_diff_constant [OF assms(5)]
  have rate: "avg_control_rate r = Some Infinity"
    and status: "control_rate_status r = Outside_50Hz_range"
    by (simp_all add: np_reciprocal_def)
  from compute_metrics_report [OF r] rate status
  have "fst (compute_metrics s) =
      \<lparr>store = s, logs = report_lines r @ [Info_control_rate Infinity Outside_50Hz_range],
       raised = None\<rparr>"
    by (auto simp: returned_def)
  with r rate status show ?thesis
    by blast
qed

theorem coincident_timestamps_give_infinite_rate_witness:
  "set (control_timestamps (store (spin init (steady_run 2)))) = {0} \<and>
   (\<exists>r. snd (compute_metrics (store (spin init (steady_run 2)))) = Some r \<and>
     avg_control_rate r = Some Infinity \<and>
     control_rate_status r = Outside_50Hz_range \<and>
     fst (compute_metrics (store (spin init (steady_run 2)))) =
       \<lparr>store = store (spin init (steady_run 2)),
        logs = report_lines r @ [Info_control_rate Infinity Outside_50Hz_range],
        raised = None\<rparr>)"
proof -
  let ?s = "store (spin init (steady_run 2))"
  have len: "10 \<le> length (pole_angles ?s)" "10 \<le> length (cart_positions ?s)"
    "10 \<le> length (control_forces ?s)"
    by (simp_all add: steady_store)
  have ts: "set (control_timestamps ?s) = {0}"
    by (simp add: steady_store)
  then have "set (control_timestamps ?s) \<subseteq> {0}"
    by simp
  from coincident_timestamps_give_infinite_rate [OF refl len this] ts show ?thesis
    by blast
qed

end
